theory Spec2Isabelle
  imports Complex_Main
begin

section \<open>Python values\<close>

text \<open>
  The extractors of \<^verbatim>\<open>src/data_processing/extractor.py\<close> receive whatever a cell of the
  data frame holds and return \<^verbatim>\<open>None\<close>, a list of floats or a dictionary. A cell value is
  therefore one of the following. A Python \<^verbatim>\<open>float\<close> is represented by the rational number it
  denotes (the decimal numerals captured from a text are rationals; rounding to binary64 is
  not part of this model), and \<^verbatim>\<open>PNaN\<close> is the float that is not a number. A dictionary is an
  association list in insertion order.
\<close>

datatype pyval =
    PNone
  | PNaN
  | PBool bool
  | PInt int
  | PFloat rat
  | PStr string
  | PList "pyval list"
  | PDict "(string \<times> pyval) list"

text \<open>\<^verbatim>\<open>isinstance(x, str)\<close>\<close>

fun is_str :: "pyval \<Rightarrow> bool" where
  "is_str (PStr s) = True"
| "is_str v = False"

section \<open>Strings\<close>

text \<open>
  A text is a list of 8-bit characters read as the code points U+0000 to U+00FF (Latin-1),
  which holds every letter of the patterns below: \<^verbatim>\<open>CHR 0xE1\<close> is a-acute, \<^verbatim>\<open>CHR 0xE3\<close>
  a-tilde, \<^verbatim>\<open>CHR 0xE7\<close> c-cedilla, \<^verbatim>\<open>CHR 0xE9\<close> e-acute, \<^verbatim>\<open>CHR 0xEA\<close> e-circumflex and
  \<^verbatim>\<open>CHR 0xED\<close> i-acute.
\<close>

text \<open>\<^verbatim>\<open>str.lower()\<close> on these code points: A to Z and U+00C0 to U+00DE (without the
  multiplication sign U+00D7) move up by 32, every other character stays.\<close>

definition lower_char :: "char \<Rightarrow> char" where
  "lower_char c =
     (let n = (of_char c :: nat) in
      if (65 \<le> n \<and> n \<le> 90) \<or> (192 \<le> n \<and> n \<le> 222 \<and> n \<noteq> 215)
      then char_of (n + 32) else c)"

definition lower :: "string \<Rightarrow> string" where
  "lower s = map lower_char s"

text \<open>\<^verbatim>\<open>\s\<close> of a \<^verbatim>\<open>str\<close> pattern: the code points for which \<^verbatim>\<open>str.isspace()\<close> holds.\<close>

definition is_space :: "char \<Rightarrow> bool" where
  "is_space c = (c \<in> set [CHR 0x09, CHR 0x0A, CHR 0x0B, CHR 0x0C, CHR 0x0D,
      CHR 0x1C, CHR 0x1D, CHR 0x1E, CHR 0x1F, CHR 0x20, CHR 0x85, CHR 0xA0])"

text \<open>\<^verbatim>\<open>\d\<close>: the decimal digits; below U+0100 these are 0 to 9 only.\<close>

definition is_digit :: "char \<Rightarrow> bool" where
  "is_digit c = (c \<in> set ''0123456789'')"

text \<open>\<^verbatim>\<open>s.replace(a, b)\<close> for a one-character \<^verbatim>\<open>a\<close>; \<^verbatim>\<open>b\<close> may be empty.\<close>

definition replace :: "char \<Rightarrow> string \<Rightarrow> string \<Rightarrow> string" where
  "replace a b s = concat (map (\<lambda>c. if c = a then b else [c]) s)"

text \<open>\<^verbatim>\<open>sub in s\<close> for strings.\<close>

fun contem :: "string \<Rightarrow> string \<Rightarrow> bool" where
  "contem sub [] = (sub = [])"
| "contem sub (c # cs) = (take (length sub) (c # cs) = sub \<or> contem sub cs)"

text \<open>The number that a string of decimal digits denotes.\<close>

definition valor_digito :: "char \<Rightarrow> int" where
  "valor_digito c = of_char c - 48"

definition valor_digitos :: "string \<Rightarrow> int" where
  "valor_digitos s = fold (\<lambda>c n. 10 * n + valor_digito c) s 0"

text \<open>
  \<^verbatim>\<open>int(s)\<close> on a string of digits, which is all that the group \<^verbatim>\<open>(\d+)\<close> captures, and
  \<^verbatim>\<open>float(s)\<close> on a string of digits and points, which is all that the numeral groups
  deliver once their commas are replaced: \<^verbatim>\<open>float\<close> accepts at most one point, with a
  digit on at least one side of it, and \<^verbatim>\<open>None\<close> stands for the \<^verbatim>\<open>ValueError\<close> it raises on
  any other such string. Signs, exponents, blanks and underscores, which the built-ins also
  accept, never reach them here (lemmas \<open>numerais_percentual\<close>, \<open>numerais_reais\<close> and
  \<open>numeral_duracao\<close>) and are not modelled.
\<close>

definition py_int :: "string \<Rightarrow> int" where
  "py_int s = valor_digitos s"

definition py_float :: "string \<Rightarrow> rat option" where
  "py_float s =
     (let a = takeWhile is_digit s; b = dropWhile is_digit s in
      case b of
        [] \<Rightarrow> if a = [] then None else Some (of_int (valor_digitos a))
      | c # f \<Rightarrow>
          if c = CHR ''.'' \<and> list_all is_digit f \<and> (a \<noteq> [] \<or> f \<noteq> [])
          then Some (of_int (valor_digitos (a @ f)) / 10 ^ length f)
          else None)"

section \<open>Regular expressions\<close>

text \<open>
  The fragment of Python's \<^verbatim>\<open>re\<close> syntax that the patterns of the extractor use:
  literals, character sets, \<^verbatim>\<open>\s\<close>, \<^verbatim>\<open>\d\<close>, concatenation, \<^verbatim>\<open>|\<close>, the greedy \<^verbatim>\<open>?\<close> and
  \<^verbatim>\<open>*\<close>, and numbered capture groups. \<^verbatim>\<open>r+\<close> is \<^verbatim>\<open>r\<close> followed by \<^verbatim>\<open>r*\<close>.
\<close>

datatype regex =
    Eps
  | Lit char
  | Cls "char list"
  | WS
  | Dig
  | Seq regex regex
  | Alt regex regex
  | Opt regex
  | Star regex
  | Grp nat regex

type_synonym caps = "(nat \<times> string) list"
type_synonym mstate = "string \<times> caps"

fun one :: "(char \<Rightarrow> bool) \<Rightarrow> mstate \<Rightarrow> mstate list" where
  "one p ([], g) = []"
| "one p (x # xs, g) = (if p x then [(xs, g)] else [])"

text \<open>
  \<open>ms r (s, g)\<close> lists every way \<open>r\<close> can match a prefix of \<open>s\<close>, as the pair of the text
  left over and the groups captured so far, in the order in which a backtracking matcher
  tries them: the left alternative before the right one, one more repetition before
  stopping. The head of the list is the match that \<^verbatim>\<open>re\<close> reports. A repetition whose
  body consumed nothing is not entered again.
\<close>

function ms :: "regex \<Rightarrow> mstate \<Rightarrow> mstate list" where
  "ms Eps st = [st]"
| "ms (Lit c) st = one (\<lambda>x. x = c) st"
| "ms (Cls cs) st = one (\<lambda>x. x \<in> set cs) st"
| "ms WS st = one is_space st"
| "ms Dig st = one is_digit st"
| "ms (Seq r1 r2) st = concat (map (ms r2) (ms r1 st))"
| "ms (Alt r1 r2) st = ms r1 st @ ms r2 st"
| "ms (Opt r) st = ms r st @ [st]"
| "ms (Star r) st =
     concat (map (\<lambda>st'. if length (fst st') < length (fst st) then ms (Star r) st' else [])
                 (ms r st)) @ [st]"
| "ms (Grp n r) st =
     map (\<lambda>st'. (fst st', (n, take (length (fst st) - length (fst st')) (fst st)) # snd st'))
         (ms r st)"
  by pat_completeness auto
termination
  by (relation "measures [\<lambda>(r, st). size r, \<lambda>(r, st). length (fst st)]") auto

definition Plus :: "regex \<Rightarrow> regex" where
  "Plus r = Seq r (Star r)"

fun seqs :: "regex list \<Rightarrow> regex" where
  "seqs [] = Eps"
| "seqs (r # rs) = Seq r (seqs rs)"

fun alts :: "regex list \<Rightarrow> regex" where
  "alts [] = Eps"
| "alts [r] = r"
| "alts (r # rs) = Alt r (alts rs)"

definition lit :: "string \<Rightarrow> regex" where
  "lit s = seqs (map Lit s)"

text \<open>\<^verbatim>\<open>match.group(n)\<close>; a group that took no part in the match reads as the empty string,
  as in the result of \<^verbatim>\<open>re.findall\<close>.\<close>

definition grp :: "nat \<Rightarrow> caps \<Rightarrow> string" where
  "grp n g = (case map_of g n of None \<Rightarrow> [] | Some w \<Rightarrow> w)"

text \<open>
  \<^verbatim>\<open>re.findall(r, s)\<close> for a pattern with one group: the text of group 1 of every match,
  scanning from the left and resuming where the previous match ended (one character further
  after a match or a failure that consumed nothing).
\<close>

function findall :: "regex \<Rightarrow> string \<Rightarrow> string list" where
  "findall r s =
     (case ms r (s, []) of
        [] \<Rightarrow> (case s of [] \<Rightarrow> [] | c # cs \<Rightarrow> findall r cs)
      | st # alternativas \<Rightarrow>
          grp 1 (snd st) #
            (if length (fst st) < length s then findall r (fst st)
             else (case s of [] \<Rightarrow> [] | c # cs \<Rightarrow> findall r cs)))"
  by pat_completeness auto
termination
  by (relation "measure (\<lambda>(r, s). length s)") auto

declare findall.simps [simp del]

text \<open>\<^verbatim>\<open>re.search(r, s)\<close>: the groups of the leftmost match, or \<^verbatim>\<open>None\<close>.\<close>

fun search :: "regex \<Rightarrow> string \<Rightarrow> caps option" where
  "search r [] = (case ms r ([], []) of [] \<Rightarrow> None | st # alternativas \<Rightarrow> Some (snd st))"
| "search r (c # cs) =
     (case ms r (c # cs, []) of [] \<Rightarrow> search r cs | st # alternativas \<Rightarrow> Some (snd st))"

section \<open>What a pattern can consume and capture\<close>

text \<open>
  \<open>alfabeto r c\<close>: the character \<open>c\<close> can be part of a match of \<open>r\<close>. \<open>grupos_em P r\<close>: the
  body of every group \<open>n\<close> of \<open>r\<close> consumes only characters that satisfy \<open>P n\<close>; \<open>caps_em P g\<close>:
  so do the captured texts in \<open>g\<close>. They serve to show which strings reach \<^verbatim>\<open>float\<close> and
  \<^verbatim>\<open>int\<close>.
\<close>

fun alfabeto :: "regex \<Rightarrow> char \<Rightarrow> bool" where
  "alfabeto Eps c = False"
| "alfabeto (Lit x) c = (c = x)"
| "alfabeto (Cls cs) c = (c \<in> set cs)"
| "alfabeto WS c = is_space c"
| "alfabeto Dig c = is_digit c"
| "alfabeto (Seq r1 r2) c = (alfabeto r1 c \<or> alfabeto r2 c)"
| "alfabeto (Alt r1 r2) c = (alfabeto r1 c \<or> alfabeto r2 c)"
| "alfabeto (Opt r) c = alfabeto r c"
| "alfabeto (Star r) c = alfabeto r c"
| "alfabeto (Grp n r) c = alfabeto r c"

fun grupos_em :: "(nat \<Rightarrow> char \<Rightarrow> bool) \<Rightarrow> regex \<Rightarrow> bool" where
  "grupos_em P (Seq r1 r2) = (grupos_em P r1 \<and> grupos_em P r2)"
| "grupos_em P (Alt r1 r2) = (grupos_em P r1 \<and> grupos_em P r2)"
| "grupos_em P (Opt r) = grupos_em P r"
| "grupos_em P (Star r) = grupos_em P r"
| "grupos_em P (Grp n r) = ((\<forall>c. alfabeto r c \<longrightarrow> P n c) \<and> grupos_em P r)"
| "grupos_em P r = True"

definition caps_em :: "(nat \<Rightarrow> char \<Rightarrow> bool) \<Rightarrow> caps \<Rightarrow> bool" where
  "caps_em P g = (\<forall>(n, w)\<in>set g. \<forall>c\<in>set w. P n c)"

section \<open>The patterns of the extractor\<close>

text \<open>\<^verbatim>\<open>(\d+[.,]?\d*)\<close>\<close>

definition numeral_percentual :: regex where
  "numeral_percentual = Grp 1 (seqs [Plus Dig, Opt (Cls ''.,''), Star Dig])"

text \<open>\<^verbatim>\<open>%\s+(?:do|de|sobre)?\s+(?:seu)?\s+faturamento\<close>\<close>

definition cauda_faturamento :: regex where
  "cauda_faturamento =
     seqs [Lit CHR ''%'', Plus WS, Opt (alts [lit ''do'', lit ''de'', lit ''sobre'']),
           Plus WS, Opt (lit ''seu''), Plus WS, lit ''faturamento'']"

text \<open>\<^verbatim>\<open>(?:de|no\s+valor\s+de)\<close>\<close>

definition de_ou_no_valor_de :: regex where
  "de_ou_no_valor_de =
     Alt (lit ''de'') (seqs [lit ''no'', Plus WS, lit ''valor'', Plus WS, lit ''de''])"

text \<open>\<^verbatim>\<open>condena\xe7\xe3o\s+(?:de|ao\s+pagamento\s+de)\<close>, with c-cedilla and a-tilde.\<close>

definition condenacao_de :: regex where
  "condenacao_de =
     seqs [lit (''condena'' @ [CHR 0xE7, CHR 0xE3] @ ''o''), Plus WS,
           Alt (lit ''de'') (seqs [lit ''ao'', Plus WS, lit ''pagamento'', Plus WS, lit ''de''])]"

text \<open>\<^verbatim>\<open>pena\s+pecuni\xe1ria\<close>, with a-acute.\<close>

definition pena_pecuniaria :: regex where
  "pena_pecuniaria = seqs [lit ''pena'', Plus WS, lit (''pecuni'' @ [CHR 0xE1] @ ''ria'')]"

text \<open>The eight patterns of \<^verbatim>\<open>extrair_percentual_multa\<close>, in the order of the source.\<close>

definition padroes_percentual :: "regex list" where
  "padroes_percentual =
     [seqs [lit ''multa'', Plus WS, lit ''de'', Plus WS, numeral_percentual, cauda_faturamento],
      seqs [numeral_percentual, cauda_faturamento, Plus WS,
            Opt (Alt (lit ''bruto'') (lit (''l'' @ [CHR 0xED] @ ''quido'')))],
      seqs [lit ''percentual'', Plus WS, lit ''de'', Plus WS, numeral_percentual,
            cauda_faturamento],
      seqs [pena_pecuniaria, Plus WS, de_ou_no_valor_de, Plus WS, numeral_percentual,
            cauda_faturamento],
      seqs [lit ''multa'', Plus WS, de_ou_no_valor_de, Plus WS, numeral_percentual,
            cauda_faturamento],
      seqs [lit (''aplica'' @ [CHR 0xE7, CHR 0xE3] @ ''o''), Plus WS, lit ''de'', Plus WS,
            lit ''multa'', Plus WS, lit ''de'', Plus WS, numeral_percentual, cauda_faturamento],
      seqs [condenacao_de, Plus WS, lit ''multa'', Plus WS, lit ''de'', Plus WS,
            numeral_percentual, cauda_faturamento],
      seqs [condenacao_de, Plus WS, numeral_percentual, cauda_faturamento]]"

text \<open>\<^verbatim>\<open>r\$\s*(\d+[.,]?\d*(?:\.\d+)*)\<close>\<close>

definition numeral_reais :: regex where
  "numeral_reais =
     seqs [lit ''r$'', Star WS,
           Grp 1 (seqs [Plus Dig, Opt (Cls ''.,''), Star Dig,
                        Star (Seq (Lit CHR ''.'') (Plus Dig))])]"

text \<open>The four patterns of \<^verbatim>\<open>extrair_valor_multa_reais\<close>.\<close>

definition padroes_reais :: "regex list" where
  "padroes_reais =
     [seqs [lit ''multa'', Plus WS, lit ''de'', Plus WS, numeral_reais],
      seqs [lit ''multa'', Plus WS, lit ''no'', Plus WS, lit ''valor'', Plus WS, lit ''de'',
            Plus WS, numeral_reais],
      seqs [pena_pecuniaria, Plus WS, lit ''de'', Plus WS, numeral_reais],
      seqs [condenacao_de, Plus WS, numeral_reais]]"

text \<open>The patterns of \<^verbatim>\<open>extrair_elementos_dosimetria\<close>.\<close>

definition re_reincidencia :: regex where
  "re_reincidencia = seqs [lit ''reincid'', Cls [CHR 0xEA, CHR ''e''], lit ''ncia'']"

definition re_reincidente :: regex where
  "re_reincidente = lit ''reincidente''"

definition re_boa_fe :: regex where
  "re_boa_fe = seqs [lit ''boa'', Cls ''- '', Lit CHR ''f'', Cls [CHR 0xE9, CHR ''e'']]"

definition re_ma_fe :: regex where
  "re_ma_fe =
     seqs [Lit CHR ''m'', Cls [CHR 0xE1, CHR ''a''], Cls ''- '', Lit CHR ''f'',
           Cls [CHR 0xE9, CHR ''e'']]"

text \<open>\<^verbatim>\<open>[ao][\xe7c][\xe3a]o\<close>\<close>

definition sufixo_acao :: regex where
  "sufixo_acao = seqs [Cls ''ao'', Cls [CHR 0xE7, CHR ''c''], Cls [CHR 0xE3, CHR ''a''],
                       Lit CHR ''o'']"

definition re_cooperacao :: regex where
  "re_cooperacao = seqs [lit ''cooper'', sufixo_acao]"

definition re_colaboracao :: regex where
  "re_colaboracao = seqs [lit ''colabor'', sufixo_acao]"

definition re_gravidade :: regex where
  "re_gravidade =
     seqs [Grp 1 (alts [lit ''alta'', lit ''elevada'', lit ''grave'', lit ''baixa'', lit ''leve'',
                        lit (''m'' @ [CHR 0xE9] @ ''dia''), lit ''moderada'']),
           Plus WS, lit ''gravidade'']"

text \<open>\<^verbatim>\<open>conduta\s+(?:por|durante)\s+(\d+)\s+(anos?|meses?|dias?)\<close>\<close>

definition re_duracao :: regex where
  "re_duracao =
     seqs [lit ''conduta'', Plus WS, Alt (lit ''por'') (lit ''durante''), Plus WS,
           Grp 1 (Plus Dig), Plus WS,
           Grp 2 (alts [Seq (lit ''ano'') (Opt (Lit CHR ''s'')),
                        Seq (lit ''mese'') (Opt (Lit CHR ''s'')),
                        Seq (lit ''dia'') (Opt (Lit CHR ''s''))])]"

section \<open>The extractors\<close>

text \<open>
  \<^verbatim>\<open>extrair_percentual_multa(texto)\<close>. The two nested \<^verbatim>\<open>for\<close> loops are folds over the
  patterns and over the matches of each, with \<^verbatim>\<open>resultados\<close> as the accumulator; a numeral
  on which \<^verbatim>\<open>float\<close> raises takes the \<^verbatim>\<open>continue\<close> of the \<^verbatim>\<open>except\<close> clause.
\<close>

definition passo_percentual :: "string \<Rightarrow> pyval list \<Rightarrow> pyval list" where
  "passo_percentual m resultados =
     (case py_float (replace CHR '','' ''.'' m) of
        None \<Rightarrow> resultados
      | Some valor \<Rightarrow> if valor \<le> 100 then resultados @ [PFloat valor] else resultados)"

definition extrair_percentual_multa :: "pyval \<Rightarrow> pyval" where
  "extrair_percentual_multa texto =
     (case texto of
        PStr s \<Rightarrow>
          (let t = lower s;
               resultados =
                 fold (\<lambda>padrao res. fold passo_percentual (findall padrao t) res)
                      padroes_percentual []
           in if resultados \<noteq> [] then PList resultados else PNone)
      | _ \<Rightarrow> PNone)"

text \<open>\<^verbatim>\<open>extrair_valor_multa_reais(texto)\<close>.\<close>

definition passo_reais :: "string \<Rightarrow> pyval list \<Rightarrow> pyval list" where
  "passo_reais m resultados =
     (let valor_str = replace CHR ''.'' [] m;
          valor_str = replace CHR '','' ''.'' valor_str
      in case py_float valor_str of
           None \<Rightarrow> resultados
         | Some valor \<Rightarrow> resultados @ [PFloat valor])"

definition extrair_valor_multa_reais :: "pyval \<Rightarrow> pyval" where
  "extrair_valor_multa_reais texto =
     (case texto of
        PStr s \<Rightarrow>
          (let t = lower s;
               resultados =
                 fold (\<lambda>padrao res. fold passo_reais (findall padrao t) res) padroes_reais []
           in if resultados \<noteq> [] then PList resultados else PNone)
      | _ \<Rightarrow> PNone)"

text \<open>
  \<^verbatim>\<open>extrair_elementos_dosimetria(texto)\<close>. \<^verbatim>\<open>elementos[k] = v\<close> on a key that the dictionary
  already holds replaces its value in place.
\<close>

fun dict_set :: "string \<Rightarrow> pyval \<Rightarrow> (string \<times> pyval) list \<Rightarrow> (string \<times> pyval) list" where
  "dict_set k v [] = [(k, v)]"
| "dict_set k v ((k', v') # d) = (if k' = k then (k, v) # d else (k', v') # dict_set k v d)"

text \<open>\<^verbatim>\<open>d.get(k)\<close>\<close>

definition dict_get :: "(string \<times> pyval) list \<Rightarrow> string \<Rightarrow> pyval" where
  "dict_get d k = (case map_of d k of None \<Rightarrow> PNone | Some v \<Rightarrow> v)"

definition elementos_iniciais :: "(string \<times> pyval) list" where
  "elementos_iniciais =
     [(''reincidencia'', PBool False), (''boa_fe'', PBool False), (''ma_fe'', PBool False),
      (''cooperacao'', PBool False), (''gravidade'', PNone), (''duracao_conduta'', PNone)]"

text \<open>Lines 136 to 146: the duration in months from the two groups of the match.\<close>

definition duracao_em_meses :: "caps \<Rightarrow> pyval" where
  "duracao_em_meses g =
     (let valor = py_int (grp 1 g);
          unidade = grp 2 g
      in if contem ''ano'' unidade then PInt (valor * 12)
         else if contem ''dia'' unidade then PFloat (of_int valor / 30)
         else PInt valor)"

text \<open>\<^verbatim>\<open>if achou: elementos[k] = True\<close>\<close>

definition marcar ::
  "bool \<Rightarrow> string \<Rightarrow> (string \<times> pyval) list \<Rightarrow> (string \<times> pyval) list" where
  "marcar achou k e = (if achou then dict_set k (PBool True) e else e)"

text \<open>\<^verbatim>\<open>if m: elementos[k] = f(m)\<close> for a match object \<^verbatim>\<open>m\<close>\<close>

definition anotar ::
  "caps option \<Rightarrow> string \<Rightarrow> (caps \<Rightarrow> pyval) \<Rightarrow> (string \<times> pyval) list
     \<Rightarrow> (string \<times> pyval) list" where
  "anotar m k f e = (case m of None \<Rightarrow> e | Some g \<Rightarrow> dict_set k (f g) e)"

definition extrair_elementos_dosimetria :: "pyval \<Rightarrow> (string \<times> pyval) list" where
  "extrair_elementos_dosimetria texto =
     (case texto of
        PStr s \<Rightarrow>
          (let t = lower s;
               e = elementos_iniciais;
               e = marcar (search re_reincidencia t \<noteq> None \<or> search re_reincidente t \<noteq> None)
                     ''reincidencia'' e;
               e = marcar (search re_boa_fe t \<noteq> None) ''boa_fe'' e;
               e = marcar (search re_ma_fe t \<noteq> None) ''ma_fe'' e;
               e = marcar (search re_cooperacao t \<noteq> None \<or> search re_colaboracao t \<noteq> None)
                     ''cooperacao'' e;
               e = anotar (search re_gravidade t) ''gravidade'' (\<lambda>g. PStr (grp 1 g)) e;
               e = anotar (search re_duracao t) ''duracao_conduta'' duracao_em_meses e
           in e)
      | _ \<Rightarrow> [])"

section \<open>Data frames\<close>

text \<open>
  A \<^verbatim>\<open>DataFrame\<close> is its column names and its rows, a row being the association of column
  names with cell values. Frames are objects: a variable holds the address of a frame in a
  store, \<^verbatim>\<open>df.copy()\<close> and boolean indexing allocate a new frame, and
  \<^verbatim>\<open>df[c] = ...\<close> overwrites the frame at an address. The store is a list and an address
  an index into it. An exception leaves the store as it is at that moment; the second
  component of a state records it.
\<close>

type_synonym linha = "(string \<times> pyval) list"

record frame =
  colunas :: "string list"
  linhas :: "linha list"

type_synonym store = "frame list"

datatype erro = KeyError string | ValueError

definition celula :: "linha \<Rightarrow> string \<Rightarrow> pyval" where
  "celula r c = (case map_of r c of None \<Rightarrow> PNaN | Some v \<Rightarrow> v)"

text \<open>\<^verbatim>\<open>Series.notnull()\<close> on one cell.\<close>

definition notnull :: "pyval \<Rightarrow> bool" where
  "notnull v = (v \<noteq> PNone \<and> v \<noteq> PNaN)"

text \<open>The frame after \<^verbatim>\<open>df[c] = df[col].apply(f)\<close>: a new column goes last, an existing one keeps
  its place.\<close>

definition com_coluna :: "string \<Rightarrow> string \<Rightarrow> (pyval \<Rightarrow> pyval) \<Rightarrow> frame \<Rightarrow> frame" where
  "com_coluna c col f df =
     \<lparr>colunas = (if c \<in> set (colunas df) then colunas df else colunas df @ [c]),
      linhas = map (\<lambda>r. dict_set c (f (celula r col)) r) (linhas df)\<rparr>"

definition df_copy :: "store \<Rightarrow> nat \<Rightarrow> store \<times> nat" where
  "df_copy h a = (h @ [h ! a], length h)"

text \<open>\<^verbatim>\<open>df[c] = df[col].apply(f)\<close> on the frame at address \<open>a\<close>; reading a column that the frame
  does not have raises \<^verbatim>\<open>KeyError\<close>, and a pending exception skips the statement.\<close>

definition atribuir ::
  "nat \<Rightarrow> string \<Rightarrow> string \<Rightarrow> (pyval \<Rightarrow> pyval) \<Rightarrow> store \<times> erro option \<Rightarrow> store \<times> erro option"
where
  "atribuir a c col f st =
     (case snd st of
        Some e \<Rightarrow> st
      | None \<Rightarrow>
          if col \<in> set (colunas (fst st ! a))
          then ((fst st)[a := com_coluna c col f (fst st ! a)], None)
          else (fst st, Some (KeyError col)))"

text \<open>\<^verbatim>\<open>df[mask]\<close> with the mask computed row by row: a new frame with the rows that pass.\<close>

definition filtrar :: "nat \<Rightarrow> (linha \<Rightarrow> bool) \<Rightarrow> store \<Rightarrow> store \<times> nat" where
  "filtrar a p h = (h @ [(h ! a)\<lparr>linhas := filter p (linhas (h ! a))\<rparr>], length h)"

section \<open>The orchestrator\<close>

text \<open>\<^verbatim>\<open>lambda x: x[0] if isinstance(x, list) and len(x) > 0 else None\<close>\<close>

definition primeiro :: "pyval \<Rightarrow> pyval" where
  "primeiro x = (case x of PList (v # vs) \<Rightarrow> v | _ \<Rightarrow> PNone)"

text \<open>\<^verbatim>\<open>lambda x: x.get(elemento) if isinstance(x, dict) else None\<close>\<close>

definition campo :: "string \<Rightarrow> pyval \<Rightarrow> pyval" where
  "campo elemento x = (case x of PDict d \<Rightarrow> dict_get d elemento | _ \<Rightarrow> PNone)"

definition elementos :: "string list" where
  "elementos = [''reincidencia'', ''boa_fe'', ''ma_fe'', ''cooperacao'', ''gravidade'',
                ''duracao_conduta'']"

text \<open>The mask of lines 189 to 192.\<close>

definition condenado :: "linha \<Rightarrow> bool" where
  "condenado r =
     (notnull (celula r ''percentual_multa'') \<or> notnull (celula r ''valor_multa_reais''))"

text \<open>
  \<^verbatim>\<open>aplicar_extracao_ao_dataframe(df, coluna_texto)\<close>: from a store and the address of \<^verbatim>\<open>df\<close>
  to the store afterwards and the address of the frame returned, or the exception raised.
\<close>

definition aplicar_extracao_ao_dataframe ::
  "store \<Rightarrow> nat \<Rightarrow> string \<Rightarrow> store \<times> (erro + nat)"
where
  "aplicar_extracao_ao_dataframe h df coluna_texto =
     (let (h, df_resultado) = df_copy h df;
          st = (h, None);
          st = atribuir df_resultado ''percentuais_multa'' coluna_texto
                 extrair_percentual_multa st;
          st = atribuir df_resultado ''percentual_multa'' ''percentuais_multa'' primeiro st;
          st = atribuir df_resultado ''valores_multa_reais'' coluna_texto
                 extrair_valor_multa_reais st;
          st = atribuir df_resultado ''valor_multa_reais'' ''valores_multa_reais'' primeiro st;
          st = atribuir df_resultado ''elementos_dosimetria'' coluna_texto
                 (\<lambda>x. PDict (extrair_elementos_dosimetria x)) st;
          st = fold (\<lambda>elemento. atribuir df_resultado (''dosimetria_'' @ elemento)
                                  ''elementos_dosimetria'' (campo elemento))
                    elementos st
      in case snd st of
           Some e \<Rightarrow> (fst st, Inl e)
         | None \<Rightarrow>
             (let (h, df_condenados) = filtrar df_resultado condenado (fst st)
              in (h, Inr df_condenados)))"

section \<open>The inferential model\<close>

text \<open>
  \<^verbatim>\<open>src/data_processing/inference.py\<close>. Two library parts are parameters: \<open>str_de\<close> is the
  built-in \<^verbatim>\<open>str\<close> on a cell value, and \<open>treino\<close> is lines 137 to 193 of
  \<^verbatim>\<open>treinar_modelo_inferencial\<close>, the scikit-learn pipeline that is fitted on the features and
  the label and either raises or returns the dictionary of the trained model.
\<close>

text \<open>\<^verbatim>\<open>lambda x: 1 if isinstance(x, list) and
  any('condena\xe7\xe3o' in str(item).lower() for item in x) else 0\<close>\<close>

definition rotulo_condenacao :: "(pyval \<Rightarrow> string) \<Rightarrow> pyval \<Rightarrow> pyval" where
  "rotulo_condenacao str_de x =
     (case x of
        PList itens \<Rightarrow>
          if list_ex (\<lambda>item. contem (''condena'' @ [CHR 0xE7, CHR 0xE3] @ ''o'')
                                (lower (str_de item))) itens
          then PInt 1 else PInt 0
      | _ \<Rightarrow> PInt 0)"

text \<open>
  One cell under \<^verbatim>\<open>Series.astype(float)\<close>: \<^verbatim>\<open>None\<close> becomes NaN, a boolean 0.0 or 1.0, a
  string goes through \<^verbatim>\<open>float\<close> (in the forms \<open>py_float\<close> covers), a list or a dictionary
  raises.
\<close>

definition astype_float :: "pyval \<Rightarrow> erro + pyval" where
  "astype_float v =
     (case v of
        PNone \<Rightarrow> Inr PNaN
      | PNaN \<Rightarrow> Inr PNaN
      | PBool b \<Rightarrow> Inr (PFloat (if b then 1 else 0))
      | PInt i \<Rightarrow> Inr (PFloat (of_int i))
      | PFloat x \<Rightarrow> Inr (PFloat x)
      | PStr s \<Rightarrow> (case py_float s of None \<Rightarrow> Inl ValueError | Some x \<Rightarrow> Inr (PFloat x))
      | PList xs \<Rightarrow> Inl ValueError
      | PDict d \<Rightarrow> Inl ValueError)"

text \<open>\<^verbatim>\<open>df_modelo[col] = df_modelo[col].astype(float)\<close>; the first cell that does not convert
  raises.\<close>

fun astype_linhas :: "string \<Rightarrow> linha list \<Rightarrow> erro + linha list" where
  "astype_linhas col [] = Inr []"
| "astype_linhas col (r # rs) =
     (case astype_float (celula r col) of
        Inl e \<Rightarrow> Inl e
      | Inr v \<Rightarrow>
          (case astype_linhas col rs of
             Inl e \<Rightarrow> Inl e
           | Inr rs' \<Rightarrow> Inr (dict_set col v r # rs')))"

definition astype_coluna :: "string \<Rightarrow> erro + frame \<Rightarrow> erro + frame" where
  "astype_coluna col x =
     (case x of
        Inl e \<Rightarrow> Inl e
      | Inr df \<Rightarrow>
          (case astype_linhas col (linhas df) of
             Inl e \<Rightarrow> Inl e
           | Inr rs \<Rightarrow> Inr (df\<lparr>linhas := rs\<rparr>)))"

text \<open>
  \<^verbatim>\<open>preparar_dados_para_modelo(df)\<close>: \<open>Inr None\<close> is the pair \<^verbatim>\<open>(None, None)\<close>, and
  \<open>Inr (Some (X, y))\<close> the features and the label. The function works on a copy of its
  argument, so the frame is passed by value here.
\<close>

definition preparar_dados_para_modelo ::
  "(pyval \<Rightarrow> string) \<Rightarrow> frame \<Rightarrow> erro + (frame \<times> pyval list) option"
where
  "preparar_dados_para_modelo str_de df =
     (if ''decisao_tribunal'' \<in> set (colunas df) then
        (let df_modelo = com_coluna ''condenacao'' ''decisao_tribunal''
                           (rotulo_condenacao str_de) df;
             presente = (\<lambda>col. col \<in> set (colunas df_modelo));
             features_numericas =
               filter presente [''ano_documento'', ''dosimetria_duracao_conduta''];
             features_categoricas =
               filter presente [''descricao_tipo_documento'', ''dosimetria_gravidade''];
             features_binarias =
               filter presente [''dosimetria_reincidencia'', ''dosimetria_boa_fe'',
                                ''dosimetria_ma_fe'', ''dosimetria_cooperacao'']
         in case fold astype_coluna features_binarias (Inr df_modelo) of
              Inl e \<Rightarrow> Inl e
            | Inr df_modelo \<Rightarrow>
                (let todas_features =
                       features_numericas @ features_categoricas @ features_binarias
                 in if todas_features = [] then Inr None
                    else
                      (let rs = filter (\<lambda>r. notnull (celula r ''condenacao''))
                                       (linhas df_modelo)
                       in Inr (Some
                            (\<lparr>colunas = todas_features,
                              linhas = map (\<lambda>r. map (\<lambda>c. (c, celula r c)) todas_features) rs\<rparr>,
                             map (\<lambda>r. celula r ''condenacao'') rs)))))
      else Inr None)"

definition dados_insuficientes :: "(string \<times> pyval) list" where
  "dados_insuficientes =
     [(''status'', PStr ''erro''),
      (''mensagem'', PStr ''Dados insuficientes para treinar o modelo'')]"

text \<open>\<^verbatim>\<open>treinar_modelo_inferencial(df)\<close>: the dictionary returned, or the exception raised.\<close>

definition treinar_modelo_inferencial ::
  "(pyval \<Rightarrow> string) \<Rightarrow> (frame \<Rightarrow> pyval list \<Rightarrow> erro + (string \<times> pyval) list) \<Rightarrow> frame
     \<Rightarrow> erro + (string \<times> pyval) list"
where
  "treinar_modelo_inferencial str_de treino df =
     (case preparar_dados_para_modelo str_de df of
        Inl e \<Rightarrow> Inl e
      | Inr None \<Rightarrow> Inr dados_insuficientes
      | Inr (Some (X, y)) \<Rightarrow>
          if length (linhas X) < 10 then Inr dados_insuficientes else treino X y)"

section \<open>The orchestrator, row by row\<close>

text \<open>
  What the eleven column assignments of \<^verbatim>\<open>aplicar_extracao_ao_dataframe\<close> do to one row and
  to the column names; the lemma \<open>aplicar_presente\<close> below shows that the frame the function
  builds is \<open>frame_resultado\<close>.
\<close>

definition junta :: "string \<Rightarrow> string list \<Rightarrow> string list" where
  "junta c cs = (if c \<in> set cs then cs else cs @ [c])"

definition passo_linha :: "string \<Rightarrow> string \<Rightarrow> (pyval \<Rightarrow> pyval) \<Rightarrow> linha \<Rightarrow> linha" where
  "passo_linha c col f r = dict_set c (f (celula r col)) r"

definition linha_resultado :: "string \<Rightarrow> linha \<Rightarrow> linha" where
  "linha_resultado coluna_texto r =
     (let r = passo_linha ''percentuais_multa'' coluna_texto extrair_percentual_multa r;
          r = passo_linha ''percentual_multa'' ''percentuais_multa'' primeiro r;
          r = passo_linha ''valores_multa_reais'' coluna_texto extrair_valor_multa_reais r;
          r = passo_linha ''valor_multa_reais'' ''valores_multa_reais'' primeiro r;
          r = passo_linha ''elementos_dosimetria'' coluna_texto
                (\<lambda>x. PDict (extrair_elementos_dosimetria x)) r
      in fold (\<lambda>elemento. passo_linha (''dosimetria_'' @ elemento) ''elementos_dosimetria''
                              (campo elemento))
              elementos r)"

definition novas_colunas :: "string list" where
  "novas_colunas =
     [''percentuais_multa'', ''percentual_multa'', ''valores_multa_reais'', ''valor_multa_reais'',
      ''elementos_dosimetria''] @ map (\<lambda>elemento. ''dosimetria_'' @ elemento) elementos"

definition frame_resultado :: "string \<Rightarrow> frame \<Rightarrow> frame" where
  "frame_resultado coluna_texto df =
     \<lparr>colunas = fold junta novas_colunas (colunas df),
      linhas = map (linha_resultado coluna_texto) (linhas df)\<rparr>"

section \<open>Texts and frames of the examples\<close>

definition texto_condenada :: string where
  "texto_condenada =
     ''a empresa foi condenada ao pagamento de multa de 15,5% de seu faturamento, '' @
     ''havendo reincid'' @ [CHR 0xEA] @ ''ncia e boa-f'' @ [CHR 0xE9]"

definition df_exemplo :: frame where
  "df_exemplo =
     \<lparr>colunas = [''texto_completo''],
      linhas = [[(''texto_completo'', PStr ''Multa de 5% de seu faturamento'')],
                [(''texto_completo'', PNone)],
                [(''texto_completo'', PStr ''o processo foi arquivado'')]]\<rparr>"

definition df_condenada :: frame where
  "df_condenada =
     \<lparr>colunas = [''texto_completo''],
      linhas = [[(''texto_completo'', PStr texto_condenada)]]\<rparr>"


section \<open>The captured numerals\<close>

lemma one_consome:
  "st' \<in> set (one p st) \<Longrightarrow> \<exists>x. fst st = x # fst st' \<and> p x \<and> snd st' = snd st"
  by (cases "(p, st)" rule: one.cases) (auto split: if_splits)

lemma ms_Star_elem:
  assumes "st' \<in> set (ms (Star r) st)"
  shows "st' = st \<or>
         (\<exists>st1\<in>set (ms r st). length (fst st1) < length (fst st) \<and>
                               st' \<in> set (ms (Star r) st1))"
proof -
  from assms have "st' \<in> set (concat (map (\<lambda>st'. if length (fst st') < length (fst st)
                                              then ms (Star r) st' else [])
                                      (ms r st)) @ [st])"
    by (subst (asm) ms.simps(9))
  then show ?thesis
    by (auto simp del: ms.simps split: if_splits)
qed

lemma ms_consome:
  "st' \<in> set (ms r st) \<Longrightarrow> \<exists>w. fst st = w @ fst st' \<and> (\<forall>c\<in>set w. alfabeto r c)"
proof (induction r st arbitrary: st' rule: ms.induct)
  case (1 st)
  then show ?case by simp
next
  case (2 c st)
  from one_consome [of st' "\<lambda>x. x = c" st] 2 obtain x where "fst st = x # fst st'" "x = c"
    by auto
  then show ?case by (intro exI [of _ "[x]"]) simp
next
  case (3 cs st)
  from one_consome [of st' "\<lambda>x. x \<in> set cs" st] 3 obtain x where
    "fst st = x # fst st'" "x \<in> set cs"
    by auto
  then show ?case by (intro exI [of _ "[x]"]) simp
next
  case (4 st)
  from one_consome [of st' is_space st] 4 obtain x where "fst st = x # fst st'" "is_space x"
    by auto
  then show ?case by (intro exI [of _ "[x]"]) simp
next
  case (5 st)
  from one_consome [of st' is_digit st] 5 obtain x where "fst st = x # fst st'" "is_digit x"
    by auto
  then show ?case by (intro exI [of _ "[x]"]) simp
next
  case (6 r1 r2 st)
  from 6(3) obtain st1 where st1: "st1 \<in> set (ms r1 st)" "st' \<in> set (ms r2 st1)"
    by auto
  from 6(1) [OF st1(1)] obtain w1 where w1: "fst st = w1 @ fst st1" "\<forall>c\<in>set w1. alfabeto r1 c"
    by blast
  from 6(2) [OF st1] obtain w2 where w2: "fst st1 = w2 @ fst st'" "\<forall>c\<in>set w2. alfabeto r2 c"
    by blast
  show ?case using w1 w2 by (intro exI [of _ "w1 @ w2"]) auto
next
  case (7 r1 r2 st)
  from 7(3) consider "st' \<in> set (ms r1 st)" | "st' \<in> set (ms r2 st)" by auto
  then show ?case
  proof cases
    case 1
    from 7(1) [OF this] show ?thesis by auto
  next
    case 2
    from 7(2) [OF this] show ?thesis by auto
  qed
next
  case (8 r st)
  from 8(2) consider "st' \<in> set (ms r st)" | "st' = st" by auto
  then show ?case
  proof cases
    case 1
    from 8(1) [OF this] show ?thesis by auto
  next
    case 2
    then show ?thesis by simp
  qed
next
  case (9 r st)
  from ms_Star_elem [OF 9(3)] consider "st' = st"
    | st1 where "st1 \<in> set (ms r st)" "length (fst st1) < length (fst st)"
        "st' \<in> set (ms (Star r) st1)"
    by blast
  then show ?case
  proof cases
    case 1
    then show ?thesis by simp
  next
    case 2
    from 9(1) [OF 2(1)] obtain w1 where w1: "fst st = w1 @ fst st1" "\<forall>c\<in>set w1. alfabeto r c"
      by blast
    from 9(2) [OF 2] obtain w2 where w2: "fst st1 = w2 @ fst st'"
      "\<forall>c\<in>set w2. alfabeto (Star r) c"
      by blast
    show ?thesis using w1 w2 by (intro exI [of _ "w1 @ w2"]) auto
  qed
next
  case (10 n r st)
  from 10(2) obtain st1 where st1: "st1 \<in> set (ms r st)" "fst st' = fst st1"
    by auto
  from 10(1) [OF st1(1)] show ?case unfolding st1(2) by simp
qed

lemma ms_grupos:
  "st' \<in> set (ms r st) \<Longrightarrow> grupos_em P r \<Longrightarrow> caps_em P (snd st) \<Longrightarrow> caps_em P (snd st')"
proof (induction r st arbitrary: st' rule: ms.induct)
  case (1 st)
  then show ?case by simp
next
  case (2 c st)
  with one_consome [of st' "\<lambda>x. x = c" st] show ?case by auto
next
  case (3 cs st)
  with one_consome [of st' "\<lambda>x. x \<in> set cs" st] show ?case by auto
next
  case (4 st)
  with one_consome [of st' is_space st] show ?case by auto
next
  case (5 st)
  with one_consome [of st' is_digit st] show ?case by auto
next
  case (6 r1 r2 st)
  from 6(3) obtain st1 where st1: "st1 \<in> set (ms r1 st)" "st' \<in> set (ms r2 st1)"
    by auto
  from 6(1) [OF st1(1)] 6(4,5) have "caps_em P (snd st1)" by simp
  with 6(2) [OF st1] 6(4) show ?case by simp
next
  case (7 r1 r2 st)
  from 7(3) consider "st' \<in> set (ms r1 st)" | "st' \<in> set (ms r2 st)" by auto
  then show ?case
  proof cases
    case 1
    from 7(1) [OF this] 7(4,5) show ?thesis by simp
  next
    case 2
    from 7(2) [OF this] 7(4,5) show ?thesis by simp
  qed
next
  case (8 r st)
  from 8(2) consider "st' \<in> set (ms r st)" | "st' = st" by auto
  then show ?case
  proof cases
    case 1
    from 8(1) [OF this] 8(3,4) show ?thesis by simp
  next
    case 2
    then show ?thesis using 8(4) by simp
  qed
next
  case (9 r st)
  from ms_Star_elem [OF 9(3)] consider "st' = st"
    | st1 where "st1 \<in> set (ms r st)" "length (fst st1) < length (fst st)"
        "st' \<in> set (ms (Star r) st1)"
    by blast
  then show ?case
  proof cases
    case 1
    then show ?thesis using 9(5) by simp
  next
    case 2
    from 9(1) [OF 2(1)] 9(4,5) have "caps_em P (snd st1)" by simp
    with 9(2) [OF 2] 9(4) show ?thesis by simp
  qed
next
  case (10 n r st)
  from 10(2) obtain st1 where st1: "st1 \<in> set (ms r st)"
    "st' = (fst st1, (n, take (length (fst st) - length (fst st1)) (fst st)) # snd st1)"
    by auto
  from ms_consome [OF st1(1)] obtain w where w: "fst st = w @ fst st1" "\<forall>c\<in>set w. alfabeto r c"
    by blast
  have t: "take (length (fst st) - length (fst st1)) (fst st) = w"
    using w(1) by simp
  have "caps_em P (snd st1)" using 10(1) [OF st1(1)] 10(3,4) by simp
  then show ?case using 10(3) w(2) unfolding st1(2) t by (auto simp: caps_em_def)
qed

lemma grp_em:
  assumes "caps_em P g"
  shows "\<forall>c\<in>set (grp n g). P n c"
proof (cases "map_of g n")
  case None
  then show ?thesis by (simp add: grp_def)
next
  case (Some w)
  then have "(n, w) \<in> set g" by (rule map_of_SomeD)
  with assms have "\<forall>c\<in>set w. P n c" by (auto simp: caps_em_def)
  then show ?thesis using Some by (simp add: grp_def)
qed

lemma caps_em_Nil: "caps_em P []"
  by (simp add: caps_em_def)

lemma ms_grupos_inicio:
  "st \<in> set (ms r (s, [])) \<Longrightarrow> grupos_em P r \<Longrightarrow> caps_em P (snd st)"
  using ms_grupos [of st r "(s, [])" P] by (simp add: caps_em_Nil)

lemma findall_em:
  "grupos_em P r \<Longrightarrow> \<forall>m\<in>set (findall r s). \<forall>c\<in>set m. P 1 c"
proof (induction r s rule: findall.induct)
  case (1 r s)
  show ?case
  proof (cases "ms r (s, [])")
    case Nil
    show ?thesis
    proof (cases s)
      case Nil
      with \<open>ms r (s, []) = []\<close> show ?thesis by (subst findall.simps) simp
    next
      case (Cons c cs)
      from 1(1) [OF \<open>ms r (s, []) = []\<close> Cons 1(4)] \<open>ms r (s, []) = []\<close> Cons
      show ?thesis by (subst findall.simps) simp
    qed
  next
    case (Cons st alternativas)
    then have "st \<in> set (ms r (s, []))" by simp
    from ms_grupos_inicio [OF this 1(4)] have g: "\<forall>c\<in>set (grp 1 (snd st)). P 1 c"
      by (rule grp_em)
    show ?thesis
    proof (cases "length (fst st) < length s")
      case True
      from 1(2) [OF Cons True 1(4)] g Cons True
      show ?thesis by (subst findall.simps) simp
    next
      case False
      show ?thesis
      proof (cases s)
        case Nil
        with g Cons False show ?thesis by (subst findall.simps) simp
      next
        case (Cons c cs)
        from 1(3) [OF \<open>ms r (s, []) = st # alternativas\<close> False Cons 1(4)] g
          \<open>ms r (s, []) = st # alternativas\<close> False Cons
        show ?thesis by (subst findall.simps) simp
      qed
    qed
  qed
qed

lemma search_em: "grupos_em P r \<Longrightarrow> search r s = Some g \<Longrightarrow> caps_em P g"
proof (induction r s rule: search.induct)
  case (1 r)
  show ?case
  proof (cases "ms r ([], [])")
    case Nil
    with 1(2) show ?thesis by simp
  next
    case (Cons st alternativas)
    then have "st \<in> set (ms r ([], []))" by simp
    from ms_grupos_inicio [OF this 1(1)] 1(2) Cons show ?thesis by simp
  qed
next
  case (2 r c cs)
  show ?case
  proof (cases "ms r (c # cs, [])")
    case Nil
    then show ?thesis using 2 by simp
  next
    case (Cons st alternativas)
    then have "st \<in> set (ms r (c # cs, []))" by simp
    from ms_grupos_inicio [OF this 2(2)] 2(3) Cons show ?thesis by simp
  qed
qed

lemma grupos_em_lit: "grupos_em P (lit s)"
  by (induction s) (simp_all add: lit_def)

lemma grupos_em_Plus: "grupos_em P (Plus r) = grupos_em P r"
  by (simp add: Plus_def)

lemma alfabeto_Plus: "alfabeto (Plus r) c = alfabeto r c"
  by (simp add: Plus_def)

lemma padroes_percentual_grupos:
  "p \<in> set padroes_percentual \<Longrightarrow>
   grupos_em (\<lambda>n c. is_digit c \<or> c = CHR ''.'' \<or> c = CHR '','') p"
  by (auto simp: padroes_percentual_def numeral_percentual_def cauda_faturamento_def
      de_ou_no_valor_de_def condenacao_de_def pena_pecuniaria_def grupos_em_lit grupos_em_Plus
      alfabeto_Plus)

lemma padroes_reais_grupos:
  "p \<in> set padroes_reais \<Longrightarrow>
   grupos_em (\<lambda>n c. is_digit c \<or> c = CHR ''.'' \<or> c = CHR '','') p"
  by (auto simp: padroes_reais_def numeral_reais_def condenacao_de_def pena_pecuniaria_def
      grupos_em_lit grupos_em_Plus alfabeto_Plus)

lemma re_duracao_grupos: "grupos_em (\<lambda>n c. n = 1 \<longrightarrow> is_digit c) re_duracao"
  by (simp add: re_duracao_def grupos_em_lit grupos_em_Plus alfabeto_Plus)

text \<open>What reaches \<^verbatim>\<open>float\<close> and \<^verbatim>\<open>int\<close>: digits and points, and digits.\<close>

lemma numerais_percentual:
  assumes "p \<in> set padroes_percentual" and "m \<in> set (findall p t)"
  shows "\<forall>c\<in>set (replace CHR '','' ''.'' m). is_digit c \<or> c = CHR ''.''"
  using findall_em [OF padroes_percentual_grupos [OF assms(1)], of t] assms(2)
  by (auto simp: replace_def split: if_splits)

lemma numerais_reais:
  assumes "p \<in> set padroes_reais" and "m \<in> set (findall p t)"
  shows "\<forall>c\<in>set (replace CHR '','' ''.'' (replace CHR ''.'' [] m)). is_digit c \<or> c = CHR ''.''"
  using findall_em [OF padroes_reais_grupos [OF assms(1)], of t] assms(2)
  by (auto simp: replace_def split: if_splits)

lemma numeral_duracao:
  assumes "search re_duracao t = Some g"
  shows "list_all is_digit (grp 1 g)"
  using grp_em [OF search_em [OF re_duracao_grupos assms], of 1]
  by (simp add: list_all_iff)

section \<open>Extraction from one text\<close>

lemma map_of_dict_set:
  "map_of (dict_set k v d) k' = (if k' = k then Some v else map_of d k')"
  by (induction d) auto

lemma dict_get_dict_set:
  "dict_get (dict_set k v d) c = (if c = k then v else dict_get d c)"
  by (simp add: dict_get_def map_of_dict_set)

lemma dict_get_Nil: "dict_get [] c = PNone"
  by (simp add: dict_get_def)

lemma dict_get_Cons: "dict_get ((k, v) # d) c = (if c = k then v else dict_get d c)"
  by (simp add: dict_get_def)

lemma dict_get_marcar:
  "dict_get (marcar achou k e) c = (if achou \<and> c = k then PBool True else dict_get e c)"
  by (simp add: marcar_def dict_get_dict_set)

lemma dict_get_anotar:
  "c \<noteq> k \<Longrightarrow> dict_get (anotar m k f e) c = dict_get e c"
  by (cases m) (simp_all add: anotar_def dict_get_dict_set)


text \<open>The four boolean fields and the duration, for a string.\<close>

lemma dosimetria_booleanos:
  "dict_get (extrair_elementos_dosimetria (PStr s)) ''reincidencia'' =
     PBool (search re_reincidencia (lower s) \<noteq> None \<or> search re_reincidente (lower s) \<noteq> None)"
  "dict_get (extrair_elementos_dosimetria (PStr s)) ''boa_fe'' =
     PBool (search re_boa_fe (lower s) \<noteq> None)"
  "dict_get (extrair_elementos_dosimetria (PStr s)) ''ma_fe'' =
     PBool (search re_ma_fe (lower s) \<noteq> None)"
  "dict_get (extrair_elementos_dosimetria (PStr s)) ''cooperacao'' =
     PBool (search re_cooperacao (lower s) \<noteq> None \<or> search re_colaboracao (lower s) \<noteq> None)"
  by (simp_all add: extrair_elementos_dosimetria_def Let_def dict_get_marcar dict_get_anotar
      elementos_iniciais_def dict_get_Nil dict_get_Cons)


lemma extrair_percentual_nao_str: "\<not> is_str v \<Longrightarrow> extrair_percentual_multa v = PNone"
  by (cases v) (simp_all add: extrair_percentual_multa_def)

lemma extrair_valor_nao_str: "\<not> is_str v \<Longrightarrow> extrair_valor_multa_reais v = PNone"
  by (cases v) (simp_all add: extrair_valor_multa_reais_def)
















lemma fold_passo_append:
  "fold passo_percentual mts res = res @ fold passo_percentual mts []"
proof (induction mts arbitrary: res)
  case Nil
  then show ?case by simp
next
  case (Cons m mts)
  have a: "passo_percentual m res = res @ passo_percentual m []"
    by (simp add: passo_percentual_def split: option.splits)
  show ?case
    using Cons.IH [of "passo_percentual m res"] Cons.IH [of "passo_percentual m []"] a
    by simp
qed

lemma fold_padroes_concat:
  "fold (\<lambda>padrao res. fold passo_percentual (findall padrao t) res) ps res =
   res @ concat (map (\<lambda>padrao. fold passo_percentual (findall padrao t) []) ps)"
proof (induction ps arbitrary: res)
  case Nil
  then show ?case by simp
next
  case (Cons p ps)
  show ?case
    using Cons.IH [of "fold passo_percentual (findall p t) res"]
      fold_passo_append [of "findall p t" res]
    by simp
qed

text \<open>
  Claim C7. The list that \<^verbatim>\<open>extrair_percentual_multa\<close> builds is the concatenation, in the
  order of the patterns, of what each pattern yields when it is run alone over the whole
  lower-cased text; nothing is removed between patterns, so a mention that two patterns
  match appears twice (the text of the witness is matched by the first and the fifth
  pattern).
\<close>

theorem percentuais_por_padrao:
  "extrair_percentual_multa (PStr s) =
     (let rs = concat (map (\<lambda>padrao. fold passo_percentual (findall padrao (lower s)) [])
                           padroes_percentual)
      in if rs \<noteq> [] then PList rs else PNone)"
  by (simp add: extrair_percentual_multa_def Let_def fold_padroes_concat)

theorem percentuais_por_padrao_witness:
  "extrair_percentual_multa (PStr ''Multa de 5% de seu faturamento'') =
     PList [PFloat 5, PFloat 5] \<and>
   map (\<lambda>padrao. fold passo_percentual
                    (findall padrao (lower ''Multa de 5% de seu faturamento'')) [])
       padroes_percentual =
     [[PFloat 5], [], [], [], [PFloat 5], [], [], []]"
proof -
  have a: "map (\<lambda>padrao. fold passo_percentual
                    (findall padrao (lower ''Multa de 5% de seu faturamento'')) [])
             padroes_percentual =
           [[PFloat 5], [], [], [], [PFloat 5], [], [], []]"
    by code_simp
  show ?thesis
    using percentuais_por_padrao [of "''Multa de 5% de seu faturamento''"] a
    by (simp add: Let_def)
qed

section \<open>Currency numerals\<close>

text \<open>
  The two replacements and \<^verbatim>\<open>float\<close> of lines 80 to 82 would turn the numeral
  \<^verbatim>\<open>1.234,56\<close> into 1234.56, and the text of the second scenario yields 1500000.
\<close>

lemma numeral_1234_56: "passo_reais ''1.234,56'' [] = [PFloat (123456 / 100)]"
  by code_simp

lemma valor_1500000:
  "extrair_valor_multa_reais (PStr ''multa no valor de R$ 1.500.000,00'') =
     PList [PFloat 1500000] \<and>
   primeiro (extrair_valor_multa_reais (PStr ''multa no valor de R$ 1.500.000,00'')) =
     PFloat 1500000 \<and>
   map (\<lambda>padrao. findall padrao (lower ''multa no valor de R$ 1.500.000,00'')) padroes_reais =
     [[], [''1.500.000''], [], []]"
  by code_simp

text \<open>
  Claim C3. No match delivers the numeral \<^verbatim>\<open>1.234,56\<close> to that conversion: on the text
  \<^verbatim>\<open>multa de R$ 1.234,56\<close> the group of the first pattern captures \<^verbatim>\<open>1.234\<close> only (its
  \<^verbatim>\<open>[.,]?\<close> is spent on the thousands point, and \<^verbatim>\<open>(?:\.\d+)*\<close> admits points alone), so
  \<^verbatim>\<open>extrair_valor_multa_reais\<close> returns 1234.0 where the claim has 1234.56.
\<close>

theorem valor_com_milhar_e_centavos:
  "extrair_valor_multa_reais (PStr ''multa de R$ 1.234,56'') = PList [PFloat 1234] \<and>
   map (\<lambda>padrao. findall padrao (lower ''multa de R$ 1.234,56'')) padroes_reais =
     [[''1.234''], [], [], []]"
  by code_simp

section \<open>The duration of the conduct\<close>















section \<open>The orchestrator on the store\<close>

lemma celula_dict_set: "celula (dict_set k v r) c = (if c = k then v else celula r c)"
  by (simp add: celula_def map_of_dict_set)

lemma com_coluna_frame:
  "com_coluna c col f \<lparr>colunas = cs, linhas = map g rs\<rparr> =
     \<lparr>colunas = junta c cs, linhas = map (\<lambda>r. passo_linha c col f (g r)) rs\<rparr>"
  by (simp add: com_coluna_def junta_def passo_linha_def)

lemma set_junta: "set (junta c cs) = insert c (set cs)"
  by (auto simp: junta_def)

lemma atribuir_presente:
  "a < length h \<Longrightarrow> h ! a = \<lparr>colunas = cs, linhas = map g rs\<rparr> \<Longrightarrow> col \<in> set cs \<Longrightarrow>
   atribuir a c col f (h, None) =
     (h[a := \<lparr>colunas = junta c cs, linhas = map (\<lambda>r. passo_linha c col f (g r)) rs\<rparr>], None)"
  by (simp add: atribuir_def com_coluna_frame)

lemma atribuir_ausente:
  "col \<notin> set (colunas (h ! a)) \<Longrightarrow> atribuir a c col f (h, None) = (h, Some (KeyError col))"
  by (simp add: atribuir_def)

lemma atribuir_pendente: "atribuir a c col f (h, Some e) = (h, Some e)"
  by (simp add: atribuir_def)

text \<open>The eleven assignments on the copy, when the text column exists.\<close>

lemma cadeia_presente:
  assumes "coluna_texto \<in> set (colunas (h ! df))"
  shows "fold (\<lambda>elemento. atribuir (length h) (''dosimetria_'' @ elemento)
                              ''elementos_dosimetria'' (campo elemento))
           elementos
           (atribuir (length h) ''elementos_dosimetria'' coluna_texto
              (\<lambda>x. PDict (extrair_elementos_dosimetria x))
              (atribuir (length h) ''valor_multa_reais'' ''valores_multa_reais'' primeiro
                 (atribuir (length h) ''valores_multa_reais'' coluna_texto
                    extrair_valor_multa_reais
                    (atribuir (length h) ''percentual_multa'' ''percentuais_multa'' primeiro
                       (atribuir (length h) ''percentuais_multa'' coluna_texto
                          extrair_percentual_multa (h @ [h ! df], None))))))
         = (h @ [frame_resultado coluna_texto (h ! df)], None)"
proof -
  define cs where "cs = colunas (h ! df)"
  define rs where "rs = linhas (h ! df)"
  have d: "h ! df = \<lparr>colunas = cs, linhas = map (\<lambda>r. r) rs\<rparr>"
    by (simp add: cs_def rs_def)
  have c: "coluna_texto \<in> set cs" using assms by (simp add: cs_def)
  have n: "(h @ [x]) ! length h = x" for x :: frame by simp
  have u: "(h @ [x])[length h := y] = h @ [y]" for x y :: frame by simp
  have l: "length h < length (h @ [x])" for x :: frame by simp
  show ?thesis
    unfolding elementos_def fold_simps comp_def d
    apply (subst atribuir_presente [OF l n]) apply (simp add: c)
    apply (simp only: u)
    apply (subst atribuir_presente [OF l n]) apply (simp add: c set_junta)
    apply (simp only: u)
    apply (subst atribuir_presente [OF l n]) apply (simp add: c set_junta)
    apply (simp only: u)
    apply (subst atribuir_presente [OF l n]) apply (simp add: c set_junta)
    apply (simp only: u)
    apply (subst atribuir_presente [OF l n]) apply (simp add: c set_junta)
    apply (simp only: u)
    apply (subst atribuir_presente [OF l n]) apply (simp add: c set_junta)
    apply (simp only: u)
    apply (subst atribuir_presente [OF l n]) apply (simp add: c set_junta)
    apply (simp only: u)
    apply (subst atribuir_presente [OF l n]) apply (simp add: c set_junta)
    apply (simp only: u)
    apply (subst atribuir_presente [OF l n]) apply (simp add: c set_junta)
    apply (simp only: u)
    apply (subst atribuir_presente [OF l n]) apply (simp add: c set_junta)
    apply (simp only: u)
    apply (subst atribuir_presente [OF l n]) apply (simp add: c set_junta)
    apply (simp only: u)
    apply (simp add: frame_resultado_def linha_resultado_def novas_colunas_def
        elementos_def Let_def)
    done
qed

lemma aplicar_presente:
  assumes "coluna_texto \<in> set (colunas (h ! df))"
  shows "aplicar_extracao_ao_dataframe h df coluna_texto =
           (h @ [frame_resultado coluna_texto (h ! df),
                 (frame_resultado coluna_texto (h ! df))
                   \<lparr>linhas := filter condenado (linhas (frame_resultado coluna_texto (h ! df)))\<rparr>],
            Inr (Suc (length h)))"
  unfolding aplicar_extracao_ao_dataframe_def df_copy_def Let_def prod.case
  by (simp only: cadeia_presente [OF assms]) (simp add: filtrar_def)

lemma aplicar_ausente:
  assumes "coluna_texto \<notin> set (colunas (h ! df))"
  shows "aplicar_extracao_ao_dataframe h df coluna_texto =
           (h @ [h ! df], Inl (KeyError coluna_texto))"
  using assms
  by (simp add: aplicar_extracao_ao_dataframe_def df_copy_def Let_def atribuir_ausente
      atribuir_pendente elementos_def)

lemma aplicar_retorno:
  assumes "aplicar_extracao_ao_dataframe h df coluna_texto = (h', Inr df_condenados)"
  shows "h' = h @ [frame_resultado coluna_texto (h ! df),
                   (frame_resultado coluna_texto (h ! df))
                     \<lparr>linhas := filter condenado
                                  (linhas (frame_resultado coluna_texto (h ! df)))\<rparr>]"
    and "df_condenados = Suc (length h)"
proof -
  have "coluna_texto \<in> set (colunas (h ! df))"
  proof (rule ccontr)
    assume "coluna_texto \<notin> set (colunas (h ! df))"
    from aplicar_ausente [OF this] assms show False by simp
  qed
  from aplicar_presente [OF this] assms
  show "h' = h @ [frame_resultado coluna_texto (h ! df),
                   (frame_resultado coluna_texto (h ! df))
                     \<lparr>linhas := filter condenado
                                  (linhas (frame_resultado coluna_texto (h ! df)))\<rparr>]"
    and "df_condenados = Suc (length h)"
    by simp_all
qed

lemma primeiro_PNone: "primeiro PNone = PNone"
  by (simp add: primeiro_def)

lemma linha_resultado_nao_str:
  assumes "\<not> is_str (celula r col)"
  shows "celula (linha_resultado col r) ''percentuais_multa'' = PNone"
    and "celula (linha_resultado col r) ''percentual_multa'' = PNone"
    and "celula (linha_resultado col r) ''valores_multa_reais'' = PNone"
    and "celula (linha_resultado col r) ''valor_multa_reais'' = PNone"
  using assms
  by (simp_all add: linha_resultado_def Let_def passo_linha_def elementos_def celula_dict_set
      extrair_percentual_nao_str extrair_valor_nao_str primeiro_PNone)

lemma exemplo_store:
  "aplicar_extracao_ao_dataframe [df_exemplo] 0 ''texto_completo'' =
     ([df_exemplo, frame_resultado ''texto_completo'' df_exemplo,
       (frame_resultado ''texto_completo'' df_exemplo)
         \<lparr>linhas := filter condenado (linhas (frame_resultado ''texto_completo'' df_exemplo))\<rparr>],
      Inr 2)"
proof -
  have "''texto_completo'' \<in> set (colunas ([df_exemplo] ! 0))"
    by (simp add: df_exemplo_def)
  from aplicar_presente [OF this] show ?thesis by simp
qed

lemma exemplo_percentual:
  "map (\<lambda>r. celula r ''percentual_multa'')
     (linhas (frame_resultado ''texto_completo'' df_exemplo)) = [PFloat 5, PNone, PNone]"
  by code_simp

lemma exemplo_valor:
  "map (\<lambda>r. celula r ''valor_multa_reais'')
     (linhas (frame_resultado ''texto_completo'' df_exemplo)) = [PNone, PNone, PNone]"
  by code_simp

lemma exemplo_condenados:
  "map (\<lambda>r. celula r ''texto_completo'')
     (filter condenado (linhas (frame_resultado ''texto_completo'' df_exemplo))) =
     [PStr ''Multa de 5% de seu faturamento'']"
  by code_simp

text \<open>
  Claim C1. When \<^verbatim>\<open>aplicar_extracao_ao_dataframe\<close> returns, the frame \<^verbatim>\<open>df_resultado\<close> (the
  copy, at the first new address) holds one row per input row, each input row with its
  derived columns; the frame returned holds exactly the rows of \<^verbatim>\<open>df_resultado\<close> whose
  \<^verbatim>\<open>percentual_multa\<close> or \<^verbatim>\<open>valor_multa_reais\<close> is not null, in their order; so a row of
  \<^verbatim>\<open>df_resultado\<close> is in the output if and only if one of the two is present.
\<close>

theorem admissao:
  assumes "aplicar_extracao_ao_dataframe h df coluna_texto = (h', Inr df_condenados)"
  shows "linhas (h' ! length h) = map (linha_resultado coluna_texto) (linhas (h ! df)) \<and>
         linhas (h' ! df_condenados) =
           filter (\<lambda>r. notnull (celula r ''percentual_multa'') \<or>
                        notnull (celula r ''valor_multa_reais''))
                  (linhas (h' ! length h)) \<and>
         (\<forall>r\<in>set (linhas (h' ! length h)).
            r \<in> set (linhas (h' ! df_condenados)) \<longleftrightarrow>
              notnull (celula r ''percentual_multa'') \<or> notnull (celula r ''valor_multa_reais''))"
proof -
  have n1: "(h @ [x, y]) ! length h = x" for x y :: frame by simp
  have n2: "(h @ [x, y]) ! Suc (length h) = y" for x y :: frame
    by (simp add: nth_append)
  have c: "condenado = (\<lambda>r. notnull (celula r ''percentual_multa'') \<or>
                        notnull (celula r ''valor_multa_reais''))"
    by (rule ext) (simp add: condenado_def)
  show ?thesis
    unfolding aplicar_retorno [OF assms] n1 n2 by (simp add: frame_resultado_def c)
qed

theorem admissao_witness:
  "aplicar_extracao_ao_dataframe [df_exemplo] 0 ''texto_completo'' =
     (fst (aplicar_extracao_ao_dataframe [df_exemplo] 0 ''texto_completo''), Inr 2) \<and>
   linhas (fst (aplicar_extracao_ao_dataframe [df_exemplo] 0 ''texto_completo'') ! 2) =
     filter (\<lambda>r. notnull (celula r ''percentual_multa'') \<or>
                  notnull (celula r ''valor_multa_reais''))
       (linhas (fst (aplicar_extracao_ao_dataframe [df_exemplo] 0 ''texto_completo'') ! 1)) \<and>
   map (\<lambda>r. celula r ''percentual_multa'')
     (linhas (fst (aplicar_extracao_ao_dataframe [df_exemplo] 0 ''texto_completo'') ! 1)) =
     [PFloat 5, PNone, PNone] \<and>
   map (\<lambda>r. celula r ''valor_multa_reais'')
     (linhas (fst (aplicar_extracao_ao_dataframe [df_exemplo] 0 ''texto_completo'') ! 1)) =
     [PNone, PNone, PNone] \<and>
   map (\<lambda>r. celula r ''texto_completo'')
     (linhas (fst (aplicar_extracao_ao_dataframe [df_exemplo] 0 ''texto_completo'') ! 2)) =
     [PStr ''Multa de 5% de seu faturamento'']"
proof -
  have p: "aplicar_extracao_ao_dataframe [df_exemplo] 0 ''texto_completo'' =
     (fst (aplicar_extracao_ao_dataframe [df_exemplo] 0 ''texto_completo''), Inr 2)"
    by (simp add: exemplo_store)
  have a: "map (\<lambda>r. celula r ''percentual_multa'')
     (linhas (fst (aplicar_extracao_ao_dataframe [df_exemplo] 0 ''texto_completo'') ! 1)) =
     [PFloat 5, PNone, PNone]"
    by (simp add: exemplo_store exemplo_percentual)
  have b: "map (\<lambda>r. celula r ''valor_multa_reais'')
     (linhas (fst (aplicar_extracao_ao_dataframe [df_exemplo] 0 ''texto_completo'') ! 1)) =
     [PNone, PNone, PNone]"
    by (simp add: exemplo_store exemplo_valor)
  have c: "map (\<lambda>r. celula r ''texto_completo'')
     (linhas (fst (aplicar_extracao_ao_dataframe [df_exemplo] 0 ''texto_completo'') ! 2)) =
     [PStr ''Multa de 5% de seu faturamento'']"
    by (simp add: exemplo_store exemplo_condenados)
  have l: "length [df_exemplo] = 1" by simp
  show ?thesis
    using admissao [OF p] p a b c unfolding l by blast
qed

text \<open>
  Claim C8. The call leaves the frame at the address of its argument, and every frame the
  store held before, as they were; the frame it returns is at an address that did not
  exist before the call, so it is a new table and not the argument.
\<close>

theorem entrada_intacta:
  assumes "df < length h"
  shows "fst (aplicar_extracao_ao_dataframe h df coluna_texto) ! df = h ! df \<and>
         take (length h) (fst (aplicar_extracao_ao_dataframe h df coluna_texto)) = h \<and>
         (\<forall>a. snd (aplicar_extracao_ao_dataframe h df coluna_texto) = Inr a \<longrightarrow>
              a \<noteq> df \<and> length h \<le> a \<and>
              a < length (fst (aplicar_extracao_ao_dataframe h df coluna_texto)))"
proof (cases "coluna_texto \<in> set (colunas (h ! df))")
  case True
  show ?thesis using assms by (simp add: aplicar_presente [OF True] nth_append)
next
  case False
  show ?thesis using assms by (simp add: aplicar_ausente [OF False] nth_append)
qed

theorem entrada_intacta_witness:
  "(0::nat) < length [df_exemplo] \<and>
   fst (aplicar_extracao_ao_dataframe [df_exemplo] 0 ''texto_completo'') ! 0 = df_exemplo \<and>
   snd (aplicar_extracao_ao_dataframe [df_exemplo] 0 ''texto_completo'') = Inr 2 \<and>
   length (fst (aplicar_extracao_ao_dataframe [df_exemplo] 0 ''texto_completo'')) = 3"
proof -
  have l: "(0::nat) < length [df_exemplo]" by simp
  have n: "length (fst (aplicar_extracao_ao_dataframe [df_exemplo] 0 ''texto_completo'')) = 3"
    by (simp add: exemplo_store)
  have r: "snd (aplicar_extracao_ao_dataframe [df_exemplo] 0 ''texto_completo'') = Inr 2"
    by (simp add: exemplo_store)
  have z: "[df_exemplo] ! 0 = df_exemplo" by simp
  show ?thesis
    using entrada_intacta [OF l, of "''texto_completo''"] r n l unfolding z by blast
qed

text \<open>
  Claim C10. A row whose text cell is not a string gets \<^verbatim>\<open>None\<close> in both candidate lists and
  in both primary values, whatever its other cells hold, and although it is a row of
  \<^verbatim>\<open>df_resultado\<close> it is not a row of the frame returned.
\<close>

theorem nao_texto_descartada:
  assumes "aplicar_extracao_ao_dataframe h df coluna_texto = (h', Inr df_condenados)"
    and "r \<in> set (linhas (h ! df))"
    and "\<not> is_str (celula r coluna_texto)"
  shows "celula (linha_resultado coluna_texto r) ''percentuais_multa'' = PNone \<and>
         celula (linha_resultado coluna_texto r) ''valores_multa_reais'' = PNone \<and>
         celula (linha_resultado coluna_texto r) ''percentual_multa'' = PNone \<and>
         celula (linha_resultado coluna_texto r) ''valor_multa_reais'' = PNone \<and>
         linha_resultado coluna_texto r \<in> set (linhas (h' ! length h)) \<and>
         linha_resultado coluna_texto r \<notin> set (linhas (h' ! df_condenados))"
proof -
  have n1: "(h @ [x, y]) ! length h = x" for x y :: frame by simp
  have n2: "(h @ [x, y]) ! Suc (length h) = y" for x y :: frame
    by (simp add: nth_append)
  note f = linha_resultado_nao_str [OF assms(3)]
  have "\<not> condenado (linha_resultado coluna_texto r)"
    by (simp add: condenado_def f notnull_def)
  then show ?thesis
    unfolding aplicar_retorno [OF assms(1)] n1 n2
    using assms(2) by (simp add: frame_resultado_def f)
qed

theorem nao_texto_descartada_witness:
  "aplicar_extracao_ao_dataframe [df_exemplo] 0 ''texto_completo'' =
     (fst (aplicar_extracao_ao_dataframe [df_exemplo] 0 ''texto_completo''), Inr 2) \<and>
   [(''texto_completo'', PNone)] \<in> set (linhas ([df_exemplo] ! 0)) \<and>
   \<not> is_str (celula [(''texto_completo'', PNone)] ''texto_completo'') \<and>
   celula (linha_resultado ''texto_completo'' [(''texto_completo'', PNone)])
     ''percentual_multa'' = PNone \<and>
   celula (linha_resultado ''texto_completo'' [(''texto_completo'', PNone)])
     ''valor_multa_reais'' = PNone \<and>
   linha_resultado ''texto_completo'' [(''texto_completo'', PNone)] \<notin>
     set (linhas (fst (aplicar_extracao_ao_dataframe [df_exemplo] 0 ''texto_completo'') ! 2))"
proof -
  have p: "aplicar_extracao_ao_dataframe [df_exemplo] 0 ''texto_completo'' =
     (fst (aplicar_extracao_ao_dataframe [df_exemplo] 0 ''texto_completo''), Inr 2)"
    by (simp add: exemplo_store)
  have m: "[(''texto_completo'', PNone)] \<in> set (linhas ([df_exemplo] ! 0))"
    by (simp add: df_exemplo_def)
  have s: "\<not> is_str (celula [(''texto_completo'', PNone)] ''texto_completo'')"
    by (simp add: celula_def)
  show ?thesis
    using nao_texto_descartada [OF p m s] p m s by blast
qed

lemma condenada_store:
  "aplicar_extracao_ao_dataframe [df_condenada] 0 ''texto_completo'' =
     ([df_condenada, frame_resultado ''texto_completo'' df_condenada,
       (frame_resultado ''texto_completo'' df_condenada)
         \<lparr>linhas := filter condenado (linhas (frame_resultado ''texto_completo'' df_condenada))\<rparr>],
      Inr 2)"
proof -
  have "''texto_completo'' \<in> set (colunas ([df_condenada] ! 0))"
    by (simp add: df_condenada_def)
  from aplicar_presente [OF this] show ?thesis by simp
qed

lemma condenada_linhas:
  "map (\<lambda>r. [celula r ''texto_completo'', celula r ''percentual_multa'',
              celula r ''dosimetria_reincidencia'', celula r ''dosimetria_boa_fe'',
              celula r ''dosimetria_ma_fe''])
     (filter condenado (linhas (frame_resultado ''texto_completo'' df_condenada))) =
   [[PStr texto_condenada, PFloat (31 / 2), PBool True, PBool True, PBool False]]"
  by code_simp

lemma condenada_percentuais:
  "extrair_percentual_multa (PStr texto_condenada) = PList [PFloat (31 / 2), PFloat (31 / 2)]"
  by code_simp

text \<open>
  Claim C4. For the text of the scenario, \<^verbatim>\<open>extrair_percentual_multa\<close> yields 15.5 (once for
  the first and once for the fifth pattern), and the frame returned for the one-row table
  holds that row, with \<^verbatim>\<open>percentual_multa\<close> 15.5, \<^verbatim>\<open>dosimetria_reincidencia\<close> and
  \<^verbatim>\<open>dosimetria_boa_fe\<close> true and \<^verbatim>\<open>dosimetria_ma_fe\<close> false.
\<close>

theorem cenario_condenada:
  "extrair_percentual_multa (PStr texto_condenada) = PList [PFloat (31 / 2), PFloat (31 / 2)] \<and>
   snd (aplicar_extracao_ao_dataframe [df_condenada] 0 ''texto_completo'') = Inr 2 \<and>
   map (\<lambda>r. [celula r ''texto_completo'', celula r ''percentual_multa'',
              celula r ''dosimetria_reincidencia'', celula r ''dosimetria_boa_fe'',
              celula r ''dosimetria_ma_fe''])
     (linhas (fst (aplicar_extracao_ao_dataframe [df_condenada] 0 ''texto_completo'') ! 2)) =
   [[PStr texto_condenada, PFloat (31 / 2), PBool True, PBool True, PBool False]]"
  using condenada_percentuais condenada_linhas by (simp add: condenada_store)

section \<open>From the extraction to the model\<close>

lemma fold_dosimetria:
  assumes "celula r ''elementos_dosimetria'' = PDict d"
    and "k \<in> set ks \<or> celula r (''dosimetria_'' @ k) = dict_get d k"
  shows "celula (fold (\<lambda>elemento. passo_linha (''dosimetria_'' @ elemento)
                                       ''elementos_dosimetria'' (campo elemento)) ks r)
           (''dosimetria_'' @ k) = dict_get d k"
  using assms
proof (induction ks arbitrary: r)
  case Nil
  then show ?case by simp
next
  case (Cons k' ks)
  let ?r = "passo_linha (''dosimetria_'' @ k') ''elementos_dosimetria'' (campo k') r"
  have a: "celula ?r ''elementos_dosimetria'' = PDict d"
    using Cons.prems(1) by (simp add: passo_linha_def celula_dict_set)
  have b: "k \<in> set ks \<or> celula ?r (''dosimetria_'' @ k) = dict_get d k"
    using Cons.prems by (auto simp: passo_linha_def celula_dict_set campo_def)
  show ?case using Cons.IH [OF a b] by simp
qed

lemma linha_resultado_dosimetria:
  assumes "k \<in> set elementos"
  shows "\<exists>x. celula (linha_resultado col r) (''dosimetria_'' @ k) =
               dict_get (extrair_elementos_dosimetria x) k"
  unfolding linha_resultado_def Let_def
  by (rule exI, rule fold_dosimetria)
    (simp add: passo_linha_def celula_dict_set, simp add: assms)

lemma dosimetria_binaria:
  assumes "c \<in> set [''reincidencia'', ''boa_fe'', ''ma_fe'', ''cooperacao'']"
  shows "dict_get (extrair_elementos_dosimetria x) c = PNone \<or>
         (\<exists>b. dict_get (extrair_elementos_dosimetria x) c = PBool b)"
proof (cases x)
  case (PStr s)
  then show ?thesis using assms dosimetria_booleanos [of s] by auto
qed (simp_all add: extrair_elementos_dosimetria_def dict_get_Nil)

lemma saida_convertivel:
  assumes "r \<in> set (linhas (frame_resultado col df))"
    and "c \<in> set [''dosimetria_reincidencia'', ''dosimetria_boa_fe'',
                   ''dosimetria_ma_fe'', ''dosimetria_cooperacao'']"
  shows "astype_float (celula r c) \<noteq> Inl e"
proof -
  from assms(1) obtain r0 where r: "r = linha_resultado col r0"
    by (auto simp: frame_resultado_def)
  from assms(2) obtain k where k: "c = ''dosimetria_'' @ k"
    "k \<in> set [''reincidencia'', ''boa_fe'', ''ma_fe'', ''cooperacao'']"
    by auto
  then have "k \<in> set elementos" by (auto simp: elementos_def)
  from linha_resultado_dosimetria [OF this, of col r0] dosimetria_binaria [OF k(2)]
  have "celula r c = PNone \<or> (\<exists>b. celula r c = PBool b)"
    unfolding r k(1) by metis
  then show ?thesis by (auto simp: astype_float_def)
qed

lemma astype_linhas_ok:
  assumes "\<forall>r\<in>set rs. \<forall>e. astype_float (celula r col) \<noteq> Inl e"
  shows "\<exists>rs'. astype_linhas col rs = Inr rs' \<and> length rs' = length rs \<and>
           (\<forall>i<length rs. \<forall>c. c \<noteq> col \<longrightarrow> celula (rs' ! i) c = celula (rs ! i) c)"
  using assms
proof (induction rs)
  case Nil
  then show ?case by simp
next
  case (Cons r rs)
  from Cons.prems obtain v where v: "astype_float (celula r col) = Inr v"
    by (cases "astype_float (celula r col)") auto
  from Cons obtain rs' where rs': "astype_linhas col rs = Inr rs'" "length rs' = length rs"
    "\<forall>i<length rs. \<forall>c. c \<noteq> col \<longrightarrow> celula (rs' ! i) c = celula (rs ! i) c"
    by auto
  show ?case
    using v rs' by (auto simp: celula_dict_set nth_Cons split: nat.splits)
qed

lemma fold_astype_ok:
  assumes "\<forall>r\<in>set (linhas d). \<forall>c\<in>set cs. \<forall>e. astype_float (celula r c) \<noteq> Inl e"
    and "distinct cs"
  shows "\<exists>d'. fold astype_coluna cs (Inr d) = Inr d' \<and>
           length (linhas d') = length (linhas d) \<and>
           (\<forall>i<length (linhas d). \<forall>c. c \<notin> set cs \<longrightarrow>
              celula (linhas d' ! i) c = celula (linhas d ! i) c)"
  using assms
proof (induction cs arbitrary: d)
  case Nil
  then show ?case by simp
next
  case (Cons c cs)
  have "\<forall>r\<in>set (linhas d). \<forall>e. astype_float (celula r c) \<noteq> Inl e"
    using Cons.prems(1) by simp
  from astype_linhas_ok [OF this] obtain rs' where rs':
    "astype_linhas c (linhas d) = Inr rs'" "length rs' = length (linhas d)"
    "\<forall>i<length (linhas d). \<forall>c'. c' \<noteq> c \<longrightarrow> celula (rs' ! i) c' = celula (linhas d ! i) c'"
    by blast
  let ?d1 = "d\<lparr>linhas := rs'\<rparr>"
  have s: "astype_coluna c (Inr d) = Inr ?d1"
    by (simp add: astype_coluna_def rs'(1))
  have h: "\<forall>r\<in>set (linhas ?d1). \<forall>c'\<in>set cs. \<forall>e. astype_float (celula r c') \<noteq> Inl e"
  proof (intro ballI)
    fix r c' assume r: "r \<in> set (linhas ?d1)" and c': "c' \<in> set cs"
    from r obtain i where i: "i < length rs'" "r = rs' ! i"
      by (auto simp: in_set_conv_nth)
    have ne: "c' \<noteq> c" using c' Cons.prems(2) by auto
    have "celula r c' = celula (linhas d ! i) c'"
      using i rs'(2,3) ne by simp
    moreover have "linhas d ! i \<in> set (linhas d)" using i rs'(2) by simp
    ultimately show "\<forall>e. astype_float (celula r c') \<noteq> Inl e"
      using Cons.prems(1) c' by simp
  qed
  from Cons.IH [OF h] Cons.prems(2) obtain d' where d':
    "fold astype_coluna cs (Inr ?d1) = Inr d'" "length (linhas d') = length (linhas ?d1)"
    "\<forall>i<length (linhas ?d1). \<forall>c'. c' \<notin> set cs \<longrightarrow>
        celula (linhas d' ! i) c' = celula (linhas ?d1 ! i) c'"
    by auto
  show ?case
    using s d' rs'(2,3) by simp
qed

lemma rotulo_notnull: "notnull (rotulo_condenacao str_de x)"
  by (cases x) (simp_all add: rotulo_condenacao_def notnull_def)

lemma preparar_sem_decisao:
  "''decisao_tribunal'' \<notin> set (colunas df) \<Longrightarrow> preparar_dados_para_modelo str_de df = Inr None"
  by (simp add: preparar_dados_para_modelo_def)


text \<open>When no conversion raises, the features have one row per row of the frame: the label
  is 0 or 1 in every row, so the mask of line 75 keeps them all.\<close>

lemma preparar_linhas:
  assumes "\<forall>r\<in>set (linhas df).
             \<forall>c\<in>set [''dosimetria_reincidencia'', ''dosimetria_boa_fe'',
                      ''dosimetria_ma_fe'', ''dosimetria_cooperacao''].
               \<forall>e. astype_float (celula r c) \<noteq> Inl e"
  shows "preparar_dados_para_modelo str_de df = Inr None \<or>
         (\<exists>X y. preparar_dados_para_modelo str_de df = Inr (Some (X, y)) \<and>
                 length (linhas X) = length (linhas df))"
proof (cases "''decisao_tribunal'' \<in> set (colunas df)")
  case False
  then show ?thesis by (simp add: preparar_sem_decisao)
next
  case True
  let ?dm = "com_coluna ''condenacao'' ''decisao_tribunal'' (rotulo_condenacao str_de) df"
  let ?fb = "filter (\<lambda>col. col \<in> set (colunas ?dm))
               [''dosimetria_reincidencia'', ''dosimetria_boa_fe'',
                ''dosimetria_ma_fe'', ''dosimetria_cooperacao'']"
  have dist: "distinct ?fb" by (rule distinct_filter) simp
  have sub: "set ?fb \<subseteq> set [''dosimetria_reincidencia'', ''dosimetria_boa_fe'',
                ''dosimetria_ma_fe'', ''dosimetria_cooperacao'']"
    by (rule filter_is_subset)
  have nc: "''condenacao'' \<notin> set ?fb"
    using sub by auto
  have conv: "\<forall>r\<in>set (linhas ?dm). \<forall>c\<in>set ?fb. \<forall>e. astype_float (celula r c) \<noteq> Inl e"
  proof (intro ballI)
    fix r c assume r: "r \<in> set (linhas ?dm)" and c: "c \<in> set ?fb"
    from r obtain r0 where r0: "r0 \<in> set (linhas df)"
      "r = dict_set ''condenacao'' (rotulo_condenacao str_de (celula r0 ''decisao_tribunal'')) r0"
      by (auto simp: com_coluna_def)
    have "c \<noteq> ''condenacao''" using c nc by auto
    then have "celula r c = celula r0 c" by (simp add: r0(2) celula_dict_set)
    moreover have "c \<in> set [''dosimetria_reincidencia'', ''dosimetria_boa_fe'',
                ''dosimetria_ma_fe'', ''dosimetria_cooperacao'']"
      using c sub by blast
    ultimately show "\<forall>e. astype_float (celula r c) \<noteq> Inl e"
      using assms r0(1) by auto
  qed
  from fold_astype_ok [OF conv dist] obtain d' where d':
    "fold astype_coluna ?fb (Inr ?dm) = Inr d'" "length (linhas d') = length (linhas ?dm)"
    "\<forall>i<length (linhas ?dm). \<forall>c. c \<notin> set ?fb \<longrightarrow>
        celula (linhas d' ! i) c = celula (linhas ?dm ! i) c"
    by blast
  have all: "\<forall>r\<in>set (linhas d'). notnull (celula r ''condenacao'')"
  proof
    fix r assume "r \<in> set (linhas d')"
    then obtain i where i: "i < length (linhas d')" "r = linhas d' ! i"
      by (auto simp: in_set_conv_nth)
    have "celula r ''condenacao'' = celula (linhas ?dm ! i) ''condenacao''"
      using i d'(2,3) nc by simp
    also have "\<dots> = rotulo_condenacao str_de (celula (linhas df ! i) ''decisao_tribunal'')"
      using i d'(2) by (simp add: com_coluna_def celula_dict_set)
    finally show "notnull (celula r ''condenacao'')" by (simp add: rotulo_notnull)
  qed
  have f: "filter (\<lambda>r. notnull (celula r ''condenacao'')) (linhas d') = linhas d'"
    using all by (simp add: filter_id_conv)
  have len: "length (linhas d') = length (linhas df)"
    using d'(2) by (simp add: com_coluna_def)
  show ?thesis
    using True d'(1) f len
    by (simp add: preparar_dados_para_modelo_def Let_def)
qed



text \<open>The frames that \<^verbatim>\<open>aplicar_extracao_ao_dataframe\<close> returns meet the condition on the
  binary columns, so on them fewer than ten rows always give the structured result.\<close>

lemma dados_insuficientes_apos_extracao:
  assumes "set (linhas df) \<subseteq> set (linhas (frame_resultado col df0))"
    and "length (linhas df) < 10"
  shows "treinar_modelo_inferencial str_de treino df = Inr dados_insuficientes"
proof -
  have "\<forall>r\<in>set (linhas df).
          \<forall>c\<in>set [''dosimetria_reincidencia'', ''dosimetria_boa_fe'',
                   ''dosimetria_ma_fe'', ''dosimetria_cooperacao''].
            \<forall>e. astype_float (celula r c) \<noteq> Inl e"
    using assms(1) saida_convertivel [of _ col df0] by blast
  with assms(2) preparar_linhas [OF this, of str_de] show ?thesis
    by (auto simp: treinar_modelo_inferencial_def)
qed

end
